theory Spec2Isabelle
  imports
    Main
    "HOL-Library.Multiset"
    "HOL-Library.Char_ord"
    "HOL-Library.List_Lexorder"
    "HOL-Library.Product_Lexorder"
begin

section \<open>The accreditation portal: routes, authorization checks, the admin file view
  and the error handlers\<close>

text \<open>
  The development embeds three source files of the portal's backend:
  \<^item> \<^verbatim>\<open>backend/routes/admin.js\<close>: the \<^verbatim>\<open>adminAuth\<close> middleware and the
    \<^verbatim>\<open>GET /files\<close> handler with its aggregation pipeline;
  \<^item> the criteria router (mounted at \<^verbatim>\<open>/api/criteria\<close>): the five route registrations;
  \<^item> \<^verbatim>\<open>backend/server.js\<close>: the chain of error-handling middleware.

  A middleware either sends a response or hands over (\<^verbatim>\<open>next()\<close>); a response is the
  HTTP status with the JSON body given to \<^verbatim>\<open>res.json\<close>. Logging
  (\<^verbatim>\<open>console.log\<close>, \<^verbatim>\<open>console.error\<close>) changes no response and is left out.
\<close>

subsection \<open>JSON bodies and responses\<close>

text \<open>The value passed to \<^verbatim>\<open>res.json\<close>. An object keeps its keys in the order the
  source writes them. \<open>JDoc\<close> holds a database document returned as it is.\<close>

datatype 'd json =
    JBool bool
  | JNum int
  | JStr string
  | JArr "'d json list"
  | JObj "(string \<times> 'd json) list"
  | JDoc 'd

record 'd response =
  statusCode :: nat
  body :: "'d json"

text \<open>\<^verbatim>\<open>res.status(c).json({ success: false, message: m })\<close>\<close>

definition failure :: "nat \<Rightarrow> string \<Rightarrow> 'd response" where
  "failure c m =
     \<lparr>statusCode = c, body = JObj [(''success'', JBool False), (''message'', JStr m)]\<rparr>"

text \<open>Reading a key of a JSON object (\<open>None\<close>: the key is absent, or the value is no
  object), and the same object without one key.\<close>

definition field :: "string \<Rightarrow> 'd json \<Rightarrow> 'd json option" where
  "field k j = (case j of JObj kvs \<Rightarrow> map_of kvs k | _ \<Rightarrow> None)"

definition without :: "string \<Rightarrow> 'd json \<Rightarrow> 'd json" where
  "without k j = (case j of JObj kvs \<Rightarrow> JObj (filter (\<lambda>kv. fst kv \<noteq> k) kvs) | _ \<Rightarrow> j)"

text \<open>The outcome of one middleware: it sent a response, or it called \<^verbatim>\<open>next()\<close>.\<close>

datatype 'r step = Respond 'r | Next

subsection \<open>Principals and requests\<close>

type_synonym oid = nat

text \<open>A user document: \<^verbatim>\<open>name\<close> and \<^verbatim>\<open>email\<close> as the pipeline of admin.js reads them,
  \<^verbatim>\<open>role\<close> as \<^verbatim>\<open>adminAuth\<close> reads it (a string, compared with \<^verbatim>\<open>'admin'\<close>), and the
  school of the principal of section 3 of the specification.\<close>

record user =
  name :: string
  email :: string
  role :: string
  school :: string

text \<open>The request as the \<^verbatim>\<open>auth\<close> middleware leaves it: \<open>req_user\<close> is
  \<^verbatim>\<open>req.user\<close>, \<open>None\<close> when no verified principal is attached.\<close>

record request =
  req_user :: "user option"

subsection \<open>\<^verbatim>\<open>adminAuth\<close> (admin.js, lines 8 to 23)\<close>

text \<open>
  \<^verbatim>\<open>if (!req.user || req.user.role !== 'admin') return res.status(403).json({...}); next();\<close>
  The \<^verbatim>\<open>||\<close> reads \<^verbatim>\<open>req.user.role\<close> only when \<^verbatim>\<open>req.user\<close> is there, so nothing
  in the \<^verbatim>\<open>try\<close> block throws and the \<^verbatim>\<open>catch\<close> branch (status 500) is never taken.
\<close>

definition adminAuth :: "request \<Rightarrow> 'd response step" where
  "adminAuth req =
     (case req_user req of
        None \<Rightarrow> Respond (failure 403 ''Admin access required'')
      | Some u \<Rightarrow>
          if role u \<noteq> ''admin'' then Respond (failure 403 ''Admin access required'')
          else Next)"

subsection \<open>The store and the pipeline of \<^verbatim>\<open>GET /files\<close> (admin.js, lines 28 to 82)\<close>

text \<open>Modelled from the spec: the attachment descriptor of the criteria model
  (\<^verbatim>\<open>models/CriteriaData.js\<close>, not among the sources), with the fields section 3 lists.
  The pipeline only tests whether the list of attachments has a first element and copies
  the list.\<close>

record file_info =
  url :: string
  originalName :: string
  fileSize :: nat
  uploadedAt :: nat

text \<open>The fields of a criteria document that the \<^verbatim>\<open>$project\<close> stage keeps, by the names
  the pipeline gives them (\<open>doc_id\<close> is \<^verbatim>\<open>_id\<close>). Their types are declared in the model
  file, which is not among the sources: the type \<open>'c\<close> of \<open>criteriaNumber\<close> is left open,
  since the pipeline only compares two values of it, and the other fields are copied
  unchanged.\<close>

record 'c criteria_fields =
  doc_id :: oid
  criteriaNumber :: 'c
  metricNumber :: string
  files :: "file_info list"
  status :: string
  createdAt :: nat

text \<open>A stored criteria document: the kept fields and the owner's id (\<^verbatim>\<open>userId\<close>, the
  local field of the \<^verbatim>\<open>$lookup\<close> stage). The school of the record is the field
  \<^verbatim>\<open>school\<close> of section 3 of the specification; only the school endpoint reads it.\<close>

record 'c CriteriaData = "'c criteria_fields" +
  userId :: oid
  recordSchool :: string

text \<open>\<^verbatim>\<open>user: { id: '$userInfo._id', name: '$userInfo.name', email: '$userInfo.email' }\<close>\<close>

record owner_ref =
  owner_id :: oid
  owner_name :: string
  owner_email :: string

text \<open>A document of the pipeline's output.\<close>

record 'c file_row = "'c criteria_fields" +
  user :: owner_ref

text \<open>The database: the criteria collection in storage order, and the users collection
  keyed by \<^verbatim>\<open>_id\<close> (the storage layer keeps \<^verbatim>\<open>_id\<close> unique).\<close>

record 'c db =
  criteria :: "'c CriteriaData list"
  users :: "oid \<rightharpoonup> user"

text \<open>\<^verbatim>\<open>{ $match: { 'files.0': { $exists: true } } }\<close>: the documents whose \<open>files\<close>
  array has an element at index 0.\<close>

definition match_stage :: "'c CriteriaData list \<Rightarrow> 'c CriteriaData list" where
  "match_stage cs = filter (\<lambda>r. files r \<noteq> []) cs"

text \<open>\<^verbatim>\<open>{ $lookup: { from: 'users', localField: 'userId', foreignField: '_id', as: 'userInfo' } }\<close>:
  every document gets the array of the user documents whose \<^verbatim>\<open>_id\<close> is its
  \<^verbatim>\<open>userId\<close>: one element, or none when there is no such user.\<close>

definition lookup_stage ::
  "(oid \<rightharpoonup> user) \<Rightarrow> 'c CriteriaData list \<Rightarrow> ('c CriteriaData \<times> user list) list" where
  "lookup_stage us cs =
     map (\<lambda>r. (r, case us (userId r) of None \<Rightarrow> [] | Some u \<Rightarrow> [u])) cs"

text \<open>\<^verbatim>\<open>{ $unwind: '$userInfo' }\<close>: one output document per element of the array; a
  document whose array is empty gives none (\<^verbatim>\<open>preserveNullAndEmptyArrays\<close> is not set).\<close>

definition unwind_stage :: "('c CriteriaData \<times> user list) list \<Rightarrow> ('c CriteriaData \<times> user) list" where
  "unwind_stage xs = concat (map (\<lambda>(r, us). map (Pair r) us) xs)"

text \<open>The \<^verbatim>\<open>$project\<close> stage: \<^verbatim>\<open>_id\<close> is kept by default, the five listed fields are
  copied, and \<open>user\<close> is built from the joined user document, whose \<^verbatim>\<open>_id\<close> is the
  document's \<^verbatim>\<open>userId\<close>.\<close>

definition project_row :: "'c CriteriaData \<Rightarrow> user \<Rightarrow> 'c file_row" where
  "project_row r u =
     \<lparr>doc_id = doc_id r, criteriaNumber = criteriaNumber r, metricNumber = metricNumber r,
      files = files r, status = status r, createdAt = createdAt r,
      user = \<lparr>owner_id = userId r, owner_name = name u, owner_email = email u\<rparr>\<rparr>"

definition project_stage :: "('c CriteriaData \<times> user) list \<Rightarrow> 'c file_row list" where
  "project_stage xs = map (\<lambda>(r, u). project_row r u) xs"

text \<open>The documents that reach the \<^verbatim>\<open>$sort\<close> stage.\<close>

definition before_sort :: "'c db \<Rightarrow> 'c file_row list" where
  "before_sort d = project_stage (unwind_stage (lookup_stage (users d) (match_stage (criteria d))))"

text \<open>\<^verbatim>\<open>{ $sort: { criteriaNumber: 1, 'user.name': 1 } }\<close>: the order the stage asks for
  between two documents. Strings compare byte by byte, a proper prefix first.\<close>

definition row_key :: "'c file_row \<Rightarrow> 'c \<times> string" where
  "row_key d = (criteriaNumber d, owner_name (user d))"

definition sort_le :: "'c::linorder file_row \<Rightarrow> 'c file_row \<Rightarrow> bool" where
  "sort_le a b \<longleftrightarrow>
     criteriaNumber a < criteriaNumber b
     \<or> (criteriaNumber a = criteriaNumber b \<and> owner_name (user a) \<le> owner_name (user b))"

text \<open>What the \<^verbatim>\<open>$sort\<close> stage of the pipeline asks of the sequence \<open>ys\<close> returned for
  the input \<open>xs\<close>: the same documents, in ascending order of the two sort fields. The
  pipeline names no further field, so it does not say in which order two documents with
  the same criteria number and owner name come; that is left to the database. What is
  proved of every sequence with this property holds of the one the database returns.\<close>

definition sort_stage :: "'c::linorder file_row list \<Rightarrow> 'c file_row list \<Rightarrow> bool" where
  "sort_stage xs ys \<longleftrightarrow> mset ys = mset xs \<and> sorted_wrt sort_le ys"

text \<open>\<open>aggregate_files d out\<close>: \<open>out\<close> has the properties the pipeline asks of the value
  that \<^verbatim>\<open>CriteriaData.aggregate([...])\<close> resolves to on the database \<open>d\<close>.\<close>

definition aggregate_files :: "'c::linorder db \<Rightarrow> 'c file_row list \<Rightarrow> bool" where
  "aggregate_files d out \<longleftrightarrow> sort_stage (before_sort d) out"

text \<open>One function that does what the stage asks: the stable sort of its input.\<close>

definition stable_sort :: "'c::linorder file_row list \<Rightarrow> 'c file_row list" where
  "stable_sort xs = List.sort_key row_key xs"

text \<open>The handler after \<^verbatim>\<open>adminAuth\<close>. Its argument is the outcome of the awaited
  \<^verbatim>\<open>aggregate\<close> call: \<open>Inr out\<close> when it resolved to \<open>out\<close>, \<open>Inl e\<close> when it rejected
  and the \<^verbatim>\<open>catch\<close> branch answers.\<close>

datatype storage_error = StorageError string

definition files_handler :: "storage_error + 'c file_row list \<Rightarrow> 'c file_row response" where
  "files_handler r =
     (case r of
        Inr out \<Rightarrow>
          \<lparr>statusCode = 200,
           body = JObj [(''success'', JBool True), (''data'', JArr (map JDoc out)),
                        (''count'', JNum (int (length out)))]\<rparr>
      | Inl e \<Rightarrow> failure 500 ''Server error fetching files data'')"

text \<open>What a request does to the criteria store.\<close>

datatype event = AggregateCriteria | QueryCriteria

text \<open>\<^verbatim>\<open>router.get('/files', auth, adminAuth, async (req, res) => ...)\<close> from the point
  where \<^verbatim>\<open>auth\<close> has run: the response, and the reads of the criteria store in the
  order they were issued.\<close>

definition admin_files ::
  "request \<Rightarrow> storage_error + 'c file_row list \<Rightarrow> 'c file_row response \<times> event list" where
  "admin_files req r =
     (case adminAuth req of
        Respond resp \<Rightarrow> (resp, [])
      | Next \<Rightarrow> (files_handler r, [AggregateCriteria]))"



subsection \<open>The authorization gate of the criteria routes\<close>

datatype decision = Admit | Deny

text \<open>Modelled from the spec: \<^verbatim>\<open>roleAuth\<close> of \<^verbatim>\<open>middleware/roleAuth.js\<close>, which the
  criteria router imports and which is not among the sources. Section 4.2:
  \<^verbatim>\<open>authorize(principal, requiredRoles, scopeSchool?)\<close> admits iff the principal's role
  is in \<open>requiredRoles\<close>; when \<open>scopeSchool\<close> is supplied it requires in addition that
  the role is \<^verbatim>\<open>admin\<close> or the principal's school is \<open>scopeSchool\<close>. The gate is given
  a verified principal; the specification does not say what it does without one.\<close>

definition authorize :: "user \<Rightarrow> string list \<Rightarrow> string option \<Rightarrow> decision" where
  "authorize p requiredRoles scopeSchool =
     (if role p \<in> set requiredRoles
         \<and> (case scopeSchool of None \<Rightarrow> True | Some s \<Rightarrow> role p = ''admin'' \<or> school p = s)
      then Admit else Deny)"

text \<open>Modelled from the spec: the answer to a denied request, \<^verbatim>\<open>Forbidden\<close> (section 7:
  status 403, \<^verbatim>\<open>success: false\<close>). The text of its message is not specified.\<close>

definition forbidden :: "'d response" where
  "forbidden = \<lparr>statusCode = 403, body = JObj [(''success'', JBool False)]\<rparr>"

text \<open>Modelled from the spec: \<^verbatim>\<open>roleAuth(roles)\<close> as a middleware. The router passes a
  list of roles and no school.\<close>

definition roleAuth :: "string list \<Rightarrow> user \<Rightarrow> 'd response step" where
  "roleAuth roles p = (case authorize p roles None of Admit \<Rightarrow> Next | Deny \<Rightarrow> Respond forbidden)"

subsection \<open>The two gated criteria endpoints\<close>

text \<open>\<^verbatim>\<open>router.get('/admin/users', roleAuth(['admin']), getAllUsersWithData)\<close> for a request
  that \<^verbatim>\<open>auth\<close> has given the principal \<open>p\<close>. The controller is not among the sources
  and is a parameter: what it answers and what it reads.\<close>

definition criteria_admin_users ::
  "user \<Rightarrow> (user \<Rightarrow> 'd response \<times> event list) \<Rightarrow> 'd response \<times> event list" where
  "criteria_admin_users p getAllUsersWithData =
     (case roleAuth [''admin''] p of
        Respond resp \<Rightarrow> (resp, [])
      | Next \<Rightarrow> getAllUsersWithData p)"

text \<open>Modelled from the spec: the records of one school (\<^verbatim>\<open>findBySchool\<close>, section 4.3),
  their grouping by owner, and the body of the answer in the response envelope of
  section 6.\<close>

definition group_by_owner :: "'c CriteriaData list \<Rightarrow> (oid \<times> 'c CriteriaData list) list" where
  "group_by_owner rs = map (\<lambda>ow. (ow, filter (\<lambda>r. userId r = ow) rs)) (remdups (map userId rs))"

definition school_records :: "string \<Rightarrow> 'c CriteriaData list \<Rightarrow> 'c CriteriaData list" where
  "school_records s cs = filter (\<lambda>r. recordSchool r = s) cs"

definition school_body :: "string \<Rightarrow> 'c CriteriaData list \<Rightarrow> (oid \<times> 'c CriteriaData list) json" where
  "school_body s cs =
     JObj [(''success'', JBool True),
           (''data'', JArr (map JDoc (group_by_owner (school_records s cs))))]"

text \<open>Modelled from the spec: \<^verbatim>\<open>getSchoolData\<close> of
  \<^verbatim>\<open>controllers/criteriaController.js\<close>, not among the sources. Section 4.5:
  \<^verbatim>\<open>schoolData(school, requesterPrincipal)\<close> is restricted to \<^verbatim>\<open>admin\<close>, or to a
  \<^verbatim>\<open>school_admin\<close> whose own school equals the requested school; it returns all
  records for that school grouped by owner, and an unauthorized principal fails with
  \<^verbatim>\<open>Forbidden\<close> before the store is touched.\<close>

definition getSchoolData ::
  "user \<Rightarrow> string \<Rightarrow> 'c CriteriaData list
     \<Rightarrow> (oid \<times> 'c CriteriaData list) response \<times> event list" where
  "getSchoolData p s cs =
     (if role p = ''admin'' \<or> (role p = ''school_admin'' \<and> school p = s)
      then (\<lparr>statusCode = 200, body = school_body s cs\<rparr>, [QueryCriteria])
      else (forbidden, []))"

text \<open>\<^verbatim>\<open>router.get('/school/:school', roleAuth(['admin']), getSchoolData)\<close> for a request
  that \<^verbatim>\<open>auth\<close> has given the principal \<open>p\<close>, with \<open>s\<close> the value of the \<^verbatim>\<open>:school\<close>
  parameter.\<close>

definition criteria_school ::
  "user \<Rightarrow> string \<Rightarrow> 'c CriteriaData list
     \<Rightarrow> (oid \<times> 'c CriteriaData list) response \<times> event list" where
  "criteria_school p s cs =
     (case roleAuth [''admin''] p of
        Respond resp \<Rightarrow> (resp, [])
      | Next \<Rightarrow> getSchoolData p s cs)"

subsection \<open>The error-handling middleware of server.js (lines 150 to 361)\<close>

text \<open>The value of a property that the handlers compare with \<^verbatim>\<open>===\<close>.\<close>

datatype js_value = Undefined | Num int | Str string

text \<open>An error object as the handlers read it: whether it is an instance of
  \<^verbatim>\<open>multer.MulterError\<close>, and its properties \<^verbatim>\<open>name\<close>, \<^verbatim>\<open>message\<close>, \<^verbatim>\<open>code\<close>,
  \<^verbatim>\<open>errors\<close> (path and message of every entry), \<^verbatim>\<open>keyValue\<close> and \<^verbatim>\<open>stack\<close>.
  \<open>None\<close> is a property that is not there.\<close>

record js_error =
  instanceof_MulterError :: bool
  err_name :: string
  err_message :: string
  err_code :: js_value
  err_errors :: "(string \<times> string) list option"
  err_keyValue :: "(string \<times> js_value) list option"
  err_stack :: string

text \<open>An error handler sends a response, or passes an error on: the one it was given
  (\<^verbatim>\<open>next(err)\<close>) or the one it threw, which the framework catches and passes to the
  next error handler.\<close>

datatype 'd handled = Sent "'d response" | NextErr js_error

text \<open>\<^verbatim>\<open>Object.keys\<close> and \<^verbatim>\<open>Object.values\<close> throw this error on a missing object.\<close>

definition type_error :: js_error where
  "type_error =
     \<lparr>instanceof_MulterError = False, err_name = ''TypeError'',
      err_message = ''Cannot convert undefined or null to object'',
      err_code = Undefined, err_errors = None, err_keyValue = None,
      err_stack = ''TypeError: Cannot convert undefined or null to object''\<rparr>"

text \<open>\<^verbatim>\<open>String.prototype.includes\<close> and \<^verbatim>\<open>Array.prototype.join\<close>.\<close>

fun starts_with :: "string \<Rightarrow> string \<Rightarrow> bool" where
  "starts_with s [] = True"
| "starts_with [] (p # ps) = False"
| "starts_with (c # cs) (p # ps) = (c = p \<and> starts_with cs ps)"

fun str_includes :: "string \<Rightarrow> string \<Rightarrow> bool" where
  "str_includes [] p = (p = [])"
| "str_includes (c # cs) p = (starts_with (c # cs) p \<or> str_includes cs p)"

fun join :: "string \<Rightarrow> string list \<Rightarrow> string" where
  "join sep [] = []"
| "join sep [x] = x"
| "join sep (x # y # ys) = x @ sep @ join sep (y # ys)"

text \<open>The Multer handler (lines 151 to 205): the \<^verbatim>\<open>switch\<close> on \<^verbatim>\<open>err.code\<close> for a
  Multer error, then the test \<^verbatim>\<open>err.message && err.message.includes('Invalid file type')\<close>,
  which answers with the error's own message.\<close>

definition multerErrorHandler :: "js_error \<Rightarrow> 'd handled" where
  "multerErrorHandler err =
     (if instanceof_MulterError err then
        (if err_code err = Str ''LIMIT_FILE_SIZE''
           then Sent (failure 400 ''File too large. Maximum size is 10MB.'')
         else if err_code err = Str ''LIMIT_UNEXPECTED_FILE''
           then Sent (failure 400
                  (''Unexpected field name. Expected '' @ [CHR 0x22] @ ''file'' @ [CHR 0x22] @ ''.''))
         else if err_code err = Str ''LIMIT_FILE_COUNT''
           then Sent (failure 400 ''Too many files. Only 1 file allowed per upload.'')
         else if err_code err = Str ''LIMIT_PART_COUNT''
           then Sent (failure 400 ''Too many form parts.'')
         else Sent (failure 400 (''Upload error: '' @ err_message err)))
      else if err_message err \<noteq> [] \<and> str_includes (err_message err) ''Invalid file type''
        then Sent (failure 400 (err_message err))
      else NextErr err)"

text \<open>The Cloudinary handler (lines 208 to 221).\<close>

definition cloudinaryErrorHandler :: "js_error \<Rightarrow> 'd handled" where
  "cloudinaryErrorHandler err =
     (if err_name err = ''CloudinaryError''
        then Sent (failure 500 ''Cloud storage error. Please try again later.'')
      else NextErr err)"

text \<open>The database handler (lines 224 to 274), its four tests in the order of the
  source. \<^verbatim>\<open>Object.values(err.errors)\<close> and \<^verbatim>\<open>Object.keys(err.keyValue)\<close> throw when the
  property is missing; the first key of an empty \<^verbatim>\<open>keyValue\<close> is \<^verbatim>\<open>undefined\<close>.\<close>

definition databaseErrorHandler :: "js_error \<Rightarrow> 'd handled" where
  "databaseErrorHandler err =
     (if err_name err = ''MongoError'' \<or> err_name err = ''MongooseError''
         \<or> err_name err = ''MongoNetworkError''
        then Sent (failure 500 ''Database connection error. Please try again.'')
      else if err_name err = ''ValidationError''
        then (case err_errors err of
                None \<Rightarrow> NextErr type_error
              | Some es \<Rightarrow> Sent (failure 400 (''Validation error: '' @ join '', '' (map snd es))))
      else if err_name err = ''CastError''
        then Sent (failure 400 ''Invalid ID format'')
      else if err_code err = Num 11000
        then (case err_keyValue err of
                None \<Rightarrow> NextErr type_error
              | Some kv \<Rightarrow>
                  Sent (failure 400
                    (''Duplicate '' @ (case kv of [] \<Rightarrow> ''undefined'' | (k, v) # rest \<Rightarrow> k)
                      @ '' value entered'')))
      else NextErr err)"

text \<open>The JWT handler (lines 277 to 299).\<close>

definition jwtErrorHandler :: "js_error \<Rightarrow> 'd handled" where
  "jwtErrorHandler err =
     (if err_name err = ''JsonWebTokenError''
        then Sent (failure 401 ''Invalid authentication token'')
      else if err_name err = ''TokenExpiredError''
        then Sent (failure 401 ''Authentication token has expired'')
      else NextErr err)"

text \<open>What the last handler reads besides the error: \<^verbatim>\<open>process.env.NODE_ENV\<close> (\<open>None\<close>
  when unset), the clock (\<^verbatim>\<open>new Date().toISOString()\<close>) and \<^verbatim>\<open>res.headersSent\<close>.\<close>

record run_context =
  NODE_ENV :: "string option"
  now :: string
  headersSent :: bool

text \<open>The generic handler (lines 328 to 361). With the headers already sent it passes
  the error on to the framework and writes nothing. The \<^verbatim>\<open>error\<close> key is spread into
  the body only when \<^verbatim>\<open>NODE_ENV === 'development'\<close>.\<close>

definition genericErrorHandler :: "run_context \<Rightarrow> js_error \<Rightarrow> 'd handled" where
  "genericErrorHandler ctx err =
     (if headersSent ctx then NextErr err
      else Sent
        \<lparr>statusCode = 500,
         body = JObj
           ([(''success'', JBool False),
             (''message'', JStr ''Internal server error''),
             (''timestamp'', JStr (now ctx))]
            @ (if NODE_ENV ctx = Some ''development''
               then [(''error'',
                      JObj [(''name'', JStr (err_name err)),
                            (''message'', JStr (err_message err)),
                            (''stack'', JStr (err_stack err))])]
               else []))\<rparr>)"

text \<open>The framework gives an error to the error handlers in the order of their
  registration until one sends a response. The 404 handler between the JWT handler and
  the generic one takes \<^verbatim>\<open>(req, res)\<close> and is skipped for an error.\<close>

fun run_error_handlers :: "(js_error \<Rightarrow> 'd handled) list \<Rightarrow> js_error \<Rightarrow> 'd handled" where
  "run_error_handlers [] err = NextErr err"
| "run_error_handlers (h # hs) err =
     (case h err of Sent resp \<Rightarrow> Sent resp | NextErr err' \<Rightarrow> run_error_handlers hs err')"

definition handle_error :: "run_context \<Rightarrow> js_error \<Rightarrow> 'd handled" where
  "handle_error ctx err =
     run_error_handlers
       [multerErrorHandler, cloudinaryErrorHandler, databaseErrorHandler, jwtErrorHandler,
        genericErrorHandler ctx]
       err"

text \<open>An error that none of the four handlers before the generic one answers, and that
  none of them replaces by a thrown one.\<close>

definition unclassified :: "js_error \<Rightarrow> bool" where
  "unclassified err \<longleftrightarrow>
     (multerErrorHandler err :: unit handled) = NextErr err
     \<and> (cloudinaryErrorHandler err :: unit handled) = NextErr err
     \<and> (databaseErrorHandler err :: unit handled) = NextErr err
     \<and> (jwtErrorHandler err :: unit handled) = NextErr err"

subsection \<open>The criteria router (lines 15 to 21)\<close>

datatype http_method = GET | POST | PUT | DELETE

text \<open>A route path is a sequence of segments, each a literal or a named parameter.\<close>

datatype segment = Lit string | Param string

datatype middleware = Auth | RoleAuth "string list" | AdminAuth

datatype handler =
    SaveCriteriaData
  | GetCriteriaData
  | GetAllUsersWithData
  | GetSchoolData
  | SubmitCriteriaData
  | AdminFiles
  | AdminTest

record route =
  route_method :: http_method
  route_path :: "segment list"
  route_stack :: "middleware list"
  route_handler :: handler

text \<open>A router: the middleware of its \<^verbatim>\<open>router.use\<close> calls, and its routes in the
  order of registration.\<close>

record router =
  router_use :: "middleware list"
  routes :: "route list"

text \<open>The five registrations of lines 17 to 21.\<close>

definition save_route :: route where
  "save_route =
     \<lparr>route_method = POST, route_path = [Lit ''save''],
      route_stack = [], route_handler = SaveCriteriaData\<rparr>"

definition admin_users_route :: route where
  "admin_users_route =
     \<lparr>route_method = GET, route_path = [Lit ''admin'', Lit ''users''],
      route_stack = [RoleAuth [''admin'']], route_handler = GetAllUsersWithData\<rparr>"

definition school_route :: route where
  "school_route =
     \<lparr>route_method = GET, route_path = [Lit ''school'', Param ''school''],
      route_stack = [RoleAuth [''admin'']], route_handler = GetSchoolData\<rparr>"

definition submit_route :: route where
  "submit_route =
     \<lparr>route_method = PUT, route_path = [Lit ''submit'', Param ''id''],
      route_stack = [], route_handler = SubmitCriteriaData\<rparr>"

definition criteria_number_route :: route where
  "criteria_number_route =
     \<lparr>route_method = GET, route_path = [Param ''criteriaNumber''],
      route_stack = [], route_handler = GetCriteriaData\<rparr>"

definition criteria_router :: router where
  "criteria_router =
     \<lparr>router_use = [Auth],
      routes = [save_route, admin_users_route, school_route, submit_route,
                criteria_number_route]\<rparr>"

text \<open>The admin router (admin.js, lines 28 and 85).\<close>

definition admin_router :: router where
  "admin_router =
     \<lparr>router_use = [],
      routes =
       [\<lparr>route_method = GET, route_path = [Lit ''files''],
         route_stack = [Auth, AdminAuth], route_handler = AdminFiles\<rparr>,
        \<lparr>route_method = GET, route_path = [Lit ''test''],
         route_stack = [], route_handler = AdminTest\<rparr>]\<rparr>"

text \<open>\<open>RoleAuth\<close> is the shared gate; \<open>AdminAuth\<close> is the check that admin.js writes
  out itself; \<open>Auth\<close> verifies the identity and decides no role.\<close>

fun compares_role :: "middleware \<Rightarrow> bool" where
  "compares_role Auth = False"
| "compares_role (RoleAuth roles) = True"
| "compares_role AdminAuth = True"

fun is_shared_gate :: "middleware \<Rightarrow> bool" where
  "is_shared_gate (RoleAuth roles) = True"
| "is_shared_gate m = False"

text \<open>How the framework (Express 4, which the \<^verbatim>\<open>app.use('*', ...)\<close> of server.js
  needs) matches the path of a request, the URL without its query string and without
  the prefix the router is mounted at, against a route. The route's path becomes an
  anchored, case-insensitive pattern: a slash before every segment, a literal segment
  as it is, a parameter as one or more characters other than a slash, and at the end
  an optional slash. So the pattern matches when cutting the path at its slashes gives
  an empty first piece, then one piece per segment, then at most one empty piece.\<close>

definition lower :: "char \<Rightarrow> char" where
  "lower c =
     (case map_of (zip ''ABCDEFGHIJKLMNOPQRSTUVWXYZ'' ''abcdefghijklmnopqrstuvwxyz'') c of
        Some l \<Rightarrow> l
      | None \<Rightarrow> c)"

fun split_path :: "string \<Rightarrow> string list" where
  "split_path [] = [[]]"
| "split_path (c # cs) =
     (if c = CHR ''/'' then [] # split_path cs
      else (case split_path cs of [] \<Rightarrow> [[c]] | s # ss \<Rightarrow> (c # s) # ss))"

definition path_pieces :: "string \<Rightarrow> string list option" where
  "path_pieces p =
     (case split_path p of
        [] # ps \<Rightarrow> Some (if ps \<noteq> [] \<and> last ps = [] then butlast ps else ps)
      | _ \<Rightarrow> None)"

fun segment_matches :: "segment \<Rightarrow> string \<Rightarrow> bool" where
  "segment_matches (Lit l) piece = (map lower piece = map lower l)"
| "segment_matches (Param k) piece = (piece \<noteq> [])"

text \<open>When the pattern matches, the framework decodes every captured parameter with
  \<^verbatim>\<open>decodeURIComponent\<close>, which throws a \<^verbatim>\<open>URIError\<close> on a malformed escape. The
  function below follows the language standard: a character other than \<^verbatim>\<open>%\<close> stands
  for itself; \<^verbatim>\<open>%\<close> must be followed by two hexadecimal digits, which give one octet;
  an octet below 128 is one character; an octet from \<^verbatim>\<open>C0\<close> to \<^verbatim>\<open>F7\<close> opens a
  sequence of two, three or four escaped octets, which must be the UTF-8 encoding of a
  code point; every other octet is an error. A string is a sequence of bytes here, so
  the decoded code point appears as its UTF-8 octets.\<close>

definition hex_digit :: "char \<Rightarrow> nat option" where
  "hex_digit c =
     map_of (zip ''0123456789abcdefABCDEF''
               [0, 1, 2, 3, 4, 5, 6, 7, 8, 9, 10, 11, 12, 13, 14, 15, 10, 11, 12, 13, 14, 15])
       c"

definition continuation :: "nat \<Rightarrow> bool" where
  "continuation b \<longleftrightarrow> 128 \<le> b \<and> b \<le> 191"

text \<open>The well-formed UTF-8 sequences of two, three and four octets: no overlong form,
  no surrogate, no code point above \<^verbatim>\<open>10FFFF\<close>.\<close>

fun valid_utf8 :: "nat list \<Rightarrow> bool" where
  "valid_utf8 [a, b] = (194 \<le> a \<and> a \<le> 223 \<and> continuation b)"
| "valid_utf8 [a, b, c] =
     (continuation c
      \<and> ((a = 224 \<and> 160 \<le> b \<and> b \<le> 191)
         \<or> (225 \<le> a \<and> a \<le> 236 \<and> continuation b)
         \<or> (a = 237 \<and> 128 \<le> b \<and> b \<le> 159)
         \<or> (238 \<le> a \<and> a \<le> 239 \<and> continuation b)))"
| "valid_utf8 [a, b, c, d] =
     (continuation c \<and> continuation d
      \<and> ((a = 240 \<and> 144 \<le> b \<and> b \<le> 191)
         \<or> (241 \<le> a \<and> a \<le> 243 \<and> continuation b)
         \<or> (a = 244 \<and> 128 \<le> b \<and> b \<le> 143)))"
| "valid_utf8 bs = False"

text \<open>\<open>uri_decode octets need s\<close> decodes \<open>s\<close> when \<open>need\<close> more escaped octets are due
  to complete the sequence \<open>octets\<close>; \<open>None\<close> is the thrown \<^verbatim>\<open>URIError\<close>.\<close>

fun uri_decode :: "nat list \<Rightarrow> nat \<Rightarrow> string \<Rightarrow> string option" where
  "uri_decode octets need [] = (if need = 0 then Some [] else None)"
| "uri_decode octets need (c # s) =
     (if c \<noteq> CHR ''%'' then
        (if need = 0 then map_option ((#) c) (uri_decode [] 0 s) else None)
      else
        (case s of
           h # l # rest \<Rightarrow>
             (case (hex_digit h, hex_digit l) of
                (Some a, Some b) \<Rightarrow>
                  (let octet = 16 * a + b in
                   if need = 0 then
                     (if octet < 128 then map_option ((#) (char_of octet)) (uri_decode [] 0 rest)
                      else if 192 \<le> octet \<and> octet \<le> 223 then uri_decode [octet] 1 rest
                      else if 224 \<le> octet \<and> octet \<le> 239 then uri_decode [octet] 2 rest
                      else if 240 \<le> octet \<and> octet \<le> 247 then uri_decode [octet] 3 rest
                      else None)
                   else if need = 1 then
                     (if valid_utf8 (octets @ [octet])
                      then map_option ((@) (map char_of (octets @ [octet]))) (uri_decode [] 0 rest)
                      else None)
                   else uri_decode (octets @ [octet]) (need - 1) rest)
              | _ \<Rightarrow> None)
         | _ \<Rightarrow> None))"

definition decodeURIComponent :: "string \<Rightarrow> string option" where
  "decodeURIComponent s = uri_decode [] 0 s"

text \<open>The error of a parameter that does not decode, as the framework rethrows it.\<close>

definition decode_error :: "string \<Rightarrow> js_error" where
  "decode_error v =
     \<lparr>instanceof_MulterError = False, err_name = ''URIError'',
      err_message = ''Failed to decode param '' @ [CHR 0x27] @ v @ [CHR 0x27],
      err_code = Undefined, err_errors = None, err_keyValue = None,
      err_stack = ''URIError: Failed to decode param''\<rparr>"

text \<open>The outcome of matching one route's path: no match, a match with the decoded
  parameters, or the error of the first parameter that does not decode.\<close>

datatype layer_match = NoMatch | Match "(string \<times> string) list" | MatchError js_error

fun decode_params :: "(segment \<times> string) list \<Rightarrow> layer_match" where
  "decode_params [] = Match []"
| "decode_params ((Lit l, piece) # rest) = decode_params rest"
| "decode_params ((Param k, piece) # rest) =
     (case decodeURIComponent piece of
        None \<Rightarrow> MatchError (decode_error piece)
      | Some v \<Rightarrow>
          (case decode_params rest of
             Match ps \<Rightarrow> Match ((k, v) # ps)
           | other \<Rightarrow> other))"

definition match_layer :: "segment list \<Rightarrow> string \<Rightarrow> layer_match" where
  "match_layer pattern p =
     (case path_pieces p of
        None \<Rightarrow> NoMatch
      | Some ps \<Rightarrow>
          if list_all2 segment_matches pattern ps then decode_params (zip pattern ps)
          else NoMatch)"

text \<open>The router tries its routes in the order of registration. A route whose path
  does not match is passed over; so is one whose path matches and whose method is not
  the request's. A route whose path matches and whose parameter does not decode leaves
  a pending error: no later route is entered, and the error goes to the error handlers
  of the application. The first route that matches in path and method is entered, with
  the decoded parameters as \<^verbatim>\<open>req.params\<close>.\<close>

datatype routed = Entered route "(string \<times> string) list" | Unmatched | RoutingError js_error

fun route_request :: "route list \<Rightarrow> http_method \<Rightarrow> string \<Rightarrow> routed" where
  "route_request [] m p = Unmatched"
| "route_request (r # rs) m p =
     (case match_layer (route_path r) p of
        NoMatch \<Rightarrow> route_request rs m p
      | MatchError e \<Rightarrow> RoutingError e
      | Match ps \<Rightarrow> if route_method r = m then Entered r ps else route_request rs m p)"

text \<open>\<open>dispatch rt m p\<close>: what the router \<open>rt\<close> does with a request of method \<open>m\<close> and
  path \<open>p\<close> once its \<^verbatim>\<open>router.use\<close> middleware has handed over.\<close>

definition dispatch :: "router \<Rightarrow> http_method \<Rightarrow> string \<Rightarrow> routed" where
  "dispatch rt m p = route_request (routes rt) m p"

subsection \<open>Sample principals\<close>

definition eastview_school_admin :: user where
  "eastview_school_admin =
     \<lparr>name = ''U2'', email = ''u2@eastview.example'', role = ''school_admin'',
      school = ''Eastview''\<rparr>"

definition lincoln_school_admin :: user where
  "lincoln_school_admin =
     \<lparr>name = ''Lee'', email = ''lee@lincoln.example'', role = ''school_admin'',
      school = ''Lincoln High''\<rparr>"

definition global_admin :: user where
  "global_admin =
     \<lparr>name = ''Root'', email = ''root@portal.example'', role = ''admin'', school = []\<rparr>"


text \<open>The design note of the specification (section 9), in its words: every
  authorization decision is the single gate of section 4.2, and no endpoint writes a role
  comparison of its own. Read on a router: each of its middleware that compares roles is
  the shared gate.\<close>

definition only_shared_gate :: "router \<Rightarrow> bool" where
  "only_shared_gate rt \<longleftrightarrow>
     (\<forall>r \<in> set (routes rt). \<forall>m \<in> set (router_use rt @ route_stack r).
        compares_role m \<longrightarrow> is_shared_gate m)"

subsection \<open>Sample errors and contexts\<close>

text \<open>The errors the token library raises for a bad signature and for an expired
  token: plain error objects with a name and a fixed message, and no \<^verbatim>\<open>code\<close>.\<close>

definition invalid_signature_error :: js_error where
  "invalid_signature_error =
     \<lparr>instanceof_MulterError = False, err_name = ''JsonWebTokenError'',
      err_message = ''invalid signature'', err_code = Undefined, err_errors = None,
      err_keyValue = None, err_stack = ''JsonWebTokenError: invalid signature''\<rparr>"

definition token_expired_error :: js_error where
  "token_expired_error =
     \<lparr>instanceof_MulterError = False, err_name = ''TokenExpiredError'',
      err_message = ''jwt expired'', err_code = Undefined, err_errors = None,
      err_keyValue = None, err_stack = ''TokenExpiredError: jwt expired''\<rparr>"

text \<open>Duplicate-key errors of the storage layer, all with \<^verbatim>\<open>code\<close> 11000: under the
  name \<^verbatim>\<open>MongoServerError\<close>; under the name \<^verbatim>\<open>MongoError\<close>, which the database handler
  itself tests for; with a duplicated value that holds the words the Multer handler
  searches the message for; and without the \<^verbatim>\<open>keyValue\<close> property.\<close>

definition duplicate_email_error :: js_error where
  "duplicate_email_error =
     \<lparr>instanceof_MulterError = False, err_name = ''MongoServerError'',
      err_message = ''E11000 duplicate key error collection: naac.users index: email_1 dup key: { email: a@b.example }'',
      err_code = Num 11000, err_errors = None,
      err_keyValue = Some [(''email'', Str ''a@b.example'')],
      err_stack = ''MongoServerError: E11000 duplicate key error''\<rparr>"

definition duplicate_named_MongoError :: js_error where
  "duplicate_named_MongoError = duplicate_email_error\<lparr>err_name := ''MongoError''\<rparr>"

definition duplicate_with_file_type_words :: js_error where
  "duplicate_with_file_type_words =
     \<lparr>instanceof_MulterError = False, err_name = ''MongoServerError'',
      err_message = ''E11000 duplicate key error collection: naac.criteriadatas index: userId_1_criteriaNumber_1_metricNumber_1 dup key: { userId: 7, criteriaNumber: Invalid file type, metricNumber: 1.1 }'',
      err_code = Num 11000, err_errors = None,
      err_keyValue = Some [(''userId'', Num 7), (''criteriaNumber'', Str ''Invalid file type''),
                           (''metricNumber'', Str ''1.1'')],
      err_stack = ''MongoServerError: E11000 duplicate key error''\<rparr>"

definition duplicate_without_keyValue :: js_error where
  "duplicate_without_keyValue = duplicate_email_error\<lparr>err_keyValue := None\<rparr>"

text \<open>Two errors that no handler knows, with different internal detail.\<close>

definition null_deref_error :: js_error where
  "null_deref_error =
     \<lparr>instanceof_MulterError = False, err_name = ''TypeError'',
      err_message = ''Cannot read properties of undefined'', err_code = Undefined,
      err_errors = None, err_keyValue = None,
      err_stack = ''TypeError: Cannot read properties of undefined at getCriteriaData''\<rparr>"

definition range_error :: js_error where
  "range_error =
     \<lparr>instanceof_MulterError = False, err_name = ''RangeError'',
      err_message = ''Invalid array length'', err_code = Undefined,
      err_errors = None, err_keyValue = None,
      err_stack = ''RangeError: Invalid array length at saveCriteriaData''\<rparr>"

definition production_context :: run_context where
  "production_context =
     \<lparr>NODE_ENV = Some ''production'', now = ''2025-01-01T00:00:00.000Z'', headersSent = False\<rparr>"

definition unset_env_context :: run_context where
  "unset_env_context =
     \<lparr>NODE_ENV = None, now = ''2025-01-02T09:30:00.000Z'', headersSent = False\<rparr>"

definition response_started_context :: run_context where
  "response_started_context = production_context\<lparr>headersSent := True\<rparr>"

subsection \<open>Sample databases\<close>

definition evidence_file :: file_info where
  "evidence_file =
     \<lparr>url = ''https://files.example/evidence.pdf'', originalName = ''evidence.pdf'',
      fileSize = 1024, uploadedAt = 5\<rparr>"

definition asha :: user where
  "asha = \<lparr>name = ''Asha'', email = ''asha@lincoln.example'', role = ''user'',
            school = ''Lincoln High''\<rparr>"

definition bo :: user where
  "bo = \<lparr>name = ''Bo'', email = ''bo@lincoln.example'', role = ''user'',
          school = ''Lincoln High''\<rparr>"

text \<open>A criteria document with the given \<^verbatim>\<open>_id\<close>, owner, criteria number, metric number
  and attachments.\<close>

definition criteria_doc :: "oid \<Rightarrow> oid \<Rightarrow> nat \<Rightarrow> string \<Rightarrow> file_info list \<Rightarrow> nat CriteriaData" where
  "criteria_doc i ow c m fs =
     \<lparr>doc_id = i, criteriaNumber = c, metricNumber = m, files = fs, status = ''draft'',
      createdAt = 1, userId = ow, recordSchool = ''Lincoln High''\<rparr>"

text \<open>Four documents of two users; the third has no attachment.\<close>

definition sample_db :: "nat db" where
  "sample_db =
     \<lparr>criteria =
        [criteria_doc 10 2 2 ''2.1'' [evidence_file],
         criteria_doc 11 1 1 ''1.1'' [evidence_file],
         criteria_doc 12 1 3 ''3.1'' [],
         criteria_doc 13 2 1 ''1.2'' [evidence_file]],
      users = [1 \<mapsto> asha, 2 \<mapsto> bo]\<rparr>"

definition sample_rows :: "nat file_row list" where
  "sample_rows =
     [project_row (criteria_doc 11 1 1 ''1.1'' [evidence_file]) asha,
      project_row (criteria_doc 13 2 1 ''1.2'' [evidence_file]) bo,
      project_row (criteria_doc 10 2 2 ''2.1'' [evidence_file]) bo]"

text \<open>One user with two documents of the same criteria number, both with an
  attachment.\<close>

definition tie_db :: "nat db" where
  "tie_db =
     \<lparr>criteria =
        [criteria_doc 20 1 1 ''1.1'' [evidence_file],
         criteria_doc 21 1 1 ''1.2'' [evidence_file]],
      users = [1 \<mapsto> asha]\<rparr>"

definition tie_row_a :: "nat file_row" where
  "tie_row_a = project_row (criteria_doc 20 1 1 ''1.1'' [evidence_file]) asha"

definition tie_row_b :: "nat file_row" where
  "tie_row_b = project_row (criteria_doc 21 1 1 ''1.2'' [evidence_file]) asha"

text \<open>A document with an attachment whose owner is not in the users collection.\<close>

definition orphan_db :: "nat db" where
  "orphan_db =
     \<lparr>criteria = [criteria_doc 30 9 1 ''1.1'' [evidence_file]],
      users = [1 \<mapsto> asha]\<rparr>"

section \<open>Verification\<close>

subsection \<open>The admin check and the gate\<close>

text \<open>Claim C10. \<^verbatim>\<open>adminAuth\<close> is total on a request without a principal: whatever else
  the request holds, with \<^verbatim>\<open>req.user\<close> missing the check answers with status 403 and
  \<^verbatim>\<open>success: false\<close>, and \<^verbatim>\<open>GET /files\<close> ends there: the handler is not entered and
  the store is not read.\<close>

theorem adminAuth_denies_without_principal:
  "adminAuth (req\<lparr>req_user := None\<rparr>)
     = (Respond (failure 403 ''Admin access required'') :: 'd response step)
   \<and> admin_files (req\<lparr>req_user := None\<rparr>) r = (failure 403 ''Admin access required'', [])
   \<and> statusCode (failure 403 ''Admin access required'' :: 'd response) = 403
   \<and> field ''success'' (body (failure 403 ''Admin access required'' :: 'd response))
       = Some (JBool False)"
  by (simp add: adminAuth_def admin_files_def failure_def field_def)

text \<open>Claim C2. A request whose principal's role is not \<^verbatim>\<open>admin\<close> is answered with
  status 403 and \<^verbatim>\<open>success: false\<close> by both restricted aggregation endpoints,
  \<^verbatim>\<open>GET /admin/files\<close> and \<^verbatim>\<open>GET /criteria/admin/users\<close>, and no read of the criteria
  store is issued: the list of store events is empty, whatever the store would have
  answered (\<open>r\<close>) and whatever the controller would have done (\<open>h\<close>). So only an admin
  reaches the aggregation.\<close>

theorem non_admin_forbidden_before_store_read:
  assumes "req_user req = Some p" and "role p \<noteq> ''admin''"
  shows "admin_files req r = (failure 403 ''Admin access required'', [])
       \<and> criteria_admin_users p h = (forbidden, [])
       \<and> statusCode (fst (admin_files req r)) = 403
       \<and> field ''success'' (body (fst (admin_files req r))) = Some (JBool False)
       \<and> statusCode (fst (criteria_admin_users p h)) = 403
       \<and> field ''success'' (body (fst (criteria_admin_users p h))) = Some (JBool False)"
proof -
  have gate: "adminAuth req
      = (Respond (failure 403 ''Admin access required'') :: 'a file_row response step)"
    using assms by (simp add: adminAuth_def)
  have files: "admin_files req r = (failure 403 ''Admin access required'', [])"
    by (simp add: admin_files_def gate)
  have "authorize p [''admin''] None = Deny"
    using assms(2) by (simp add: authorize_def)
  then have users: "criteria_admin_users p h = (forbidden, [])"
    by (simp add: criteria_admin_users_def roleAuth_def)
  show ?thesis
    by (simp add: files users failure_def forbidden_def field_def)
qed

theorem non_admin_forbidden_before_store_read_witness:
  "req_user \<lparr>req_user = Some eastview_school_admin\<rparr> = Some eastview_school_admin
   \<and> role eastview_school_admin \<noteq> ''admin''
   \<and> admin_files \<lparr>req_user = Some eastview_school_admin\<rparr> (Inr ([] :: nat file_row list))
       = (failure 403 ''Admin access required'', [])
   \<and> criteria_admin_users eastview_school_admin
        (\<lambda>u. (\<lparr>statusCode = 200, body = JObj [(''success'', JBool True)] :: unit json\<rparr>,
               [AggregateCriteria]))
       = (forbidden, [])"
proof -
  have a: "req_user \<lparr>req_user = Some eastview_school_admin\<rparr> = Some eastview_school_admin"
    by simp
  have b: "role eastview_school_admin \<noteq> ''admin''"
    by (simp add: eastview_school_admin_def)
  show ?thesis
    using non_admin_forbidden_before_store_read
            [OF a b, where r = "Inr ([] :: nat file_row list)"
               and h = "\<lambda>u. (\<lparr>statusCode = 200,
                                body = JObj [(''success'', JBool True)] :: unit json\<rparr>,
                             [AggregateCriteria])"]
          a b
    by simp
qed

text \<open>Claim C5, as amended. \<^verbatim>\<open>GET /admin/files\<close> does not go through the shared gate:
  admin.js writes its own comparison of the role. On every request with a principal
  the two checks agree: \<^verbatim>\<open>adminAuth\<close> hands over exactly when
  \<^verbatim>\<open>authorize(p, ['admin'])\<close> admits, and both deny with status 403. Without a
  principal \<^verbatim>\<open>adminAuth\<close> denies with status 403; the gate is given no behaviour for
  that case.\<close>

theorem adminAuth_agrees_with_gate:
  "map_step statusCode (adminAuth \<lparr>req_user = Some p\<rparr> :: 'a response step)
     = map_step statusCode (roleAuth [''admin''] p :: 'b response step)
   \<and> ((adminAuth \<lparr>req_user = Some p\<rparr> = (Next :: 'a response step))
        = (authorize p [''admin''] None = Admit))
   \<and> adminAuth \<lparr>req_user = None\<rparr>
        = (Respond (failure 403 ''Admin access required'') :: 'a response step)"
  by (simp add: adminAuth_def roleAuth_def authorize_def failure_def forbidden_def)

text \<open>The claim as stated fails on the admin router: its \<^verbatim>\<open>/files\<close> route carries
  \<^verbatim>\<open>adminAuth\<close>, which compares the role itself and is not the shared gate.\<close>

theorem admin_router_bypasses_shared_gate:
  "\<not> only_shared_gate admin_router"
  by (simp add: only_shared_gate_def admin_router_def)

subsection \<open>The school endpoint\<close>

text \<open>Claim C1, as amended. \<^verbatim>\<open>GET /criteria/school/{school}\<close> admits a principal and
  returns the records of the school, grouped by owner, exactly when the principal's role
  is \<^verbatim>\<open>admin\<close>: the route is registered behind \<^verbatim>\<open>roleAuth(['admin'])\<close>. Every other
  principal is answered with \<^verbatim>\<open>Forbidden\<close> and no read of the store.\<close>

theorem school_endpoint_admits_admin_only:
  "criteria_school p s cs =
     (if role p = ''admin''
      then (\<lparr>statusCode = 200, body = school_body s cs\<rparr>, [QueryCriteria])
      else (forbidden, []))"
  by (simp add: criteria_school_def roleAuth_def authorize_def getSchoolData_def)

text \<open>The claim as stated fails for a school administrator who asks for the own school,
  here with four records of that school in the store: the gate of the route denies before
  the controller is reached.\<close>

theorem matching_school_admin_is_forbidden:
  "role lincoln_school_admin = ''school_admin''
   \<and> school lincoln_school_admin = ''Lincoln High''
   \<and> school_records ''Lincoln High'' (criteria sample_db) = criteria sample_db
   \<and> criteria_school lincoln_school_admin ''Lincoln High'' (criteria sample_db)
       = (forbidden, [])"
  by (simp add: lincoln_school_admin_def criteria_school_def roleAuth_def authorize_def
        school_records_def sample_db_def criteria_doc_def)

subsection \<open>Dispatch in the criteria router\<close>

lemma split_path_no_slash: "CHR ''/'' \<notin> set x \<Longrightarrow> split_path x = [x]"
  by (induction x) auto

lemma lower_literals:
  "map lower ''admin'' = ''admin''" "map lower ''users'' = ''users''"
  "map lower ''school'' = ''school''" "map lower ''save'' = ''save''"
  "map lower ''submit'' = ''submit''"
  by (simp_all add: lower_def)

lemma path_pieces_admin_users: "path_pieces ''/admin/users'' = Some [''admin'', ''users'']"
  by (simp add: path_pieces_def)

lemma path_pieces_school:
  assumes "x \<noteq> []" and "CHR ''/'' \<notin> set x"
  shows "path_pieces (''/school/'' @ x) = Some [''school'', x]"
  using assms by (simp add: path_pieces_def split_path_no_slash)

lemma match_layer_pieces:
  assumes "path_pieces p = Some ps"
  shows "match_layer pattern p
    = (if list_all2 segment_matches pattern ps then decode_params (zip pattern ps) else NoMatch)"
  by (simp add: match_layer_def assms)

lemma set_criteria_routes:
  assumes "mset rs = mset (routes criteria_router)"
  shows "set rs = {save_route, admin_users_route, school_route, submit_route,
                   criteria_number_route}"
proof -
  have "set rs = set (routes criteria_router)"
    using assms by (metis set_mset_mset)
  then show ?thesis
    by (simp add: criteria_router_def)
qed

text \<open>When one route matches a path, in the request's method, and every other route
  does not match the path, that route is entered wherever it stands in the list.\<close>

lemma route_request_only_match:
  assumes "r0 \<in> set rs"
      and "match_layer (route_path r0) p = Match ps" and "route_method r0 = m"
      and "\<forall>r \<in> set rs. r \<noteq> r0 \<longrightarrow> match_layer (route_path r) p = NoMatch"
  shows "route_request rs m p = Entered r0 ps"
  using assms by (induction rs) auto

lemma route_request_only_error:
  assumes "r0 \<in> set rs"
      and "match_layer (route_path r0) p = MatchError e"
      and "\<forall>r \<in> set rs. r \<noteq> r0 \<longrightarrow> match_layer (route_path r) p = NoMatch"
  shows "route_request rs m p = RoutingError e"
  using assms by (induction rs) auto

lemma admin_users_matches:
  "match_layer (route_path admin_users_route) ''/admin/users'' = Match []"
  "match_layer (route_path save_route) ''/admin/users'' = NoMatch"
  "match_layer (route_path school_route) ''/admin/users'' = NoMatch"
  "match_layer (route_path submit_route) ''/admin/users'' = NoMatch"
  "match_layer (route_path criteria_number_route) ''/admin/users'' = NoMatch"
  by (simp_all add: match_layer_pieces [OF path_pieces_admin_users] lower_literals
        admin_users_route_def save_route_def school_route_def submit_route_def
        criteria_number_route_def)

lemma school_matches:
  assumes "path_pieces p = Some [''school'', x]" and "x \<noteq> []"
  shows "match_layer (route_path school_route) p
           = (case decodeURIComponent x of
                None \<Rightarrow> MatchError (decode_error x)
              | Some v \<Rightarrow> Match [(''school'', v)])"
    and "match_layer (route_path save_route) p = NoMatch"
    and "match_layer (route_path admin_users_route) p = NoMatch"
    and "match_layer (route_path submit_route) p = NoMatch"
    and "match_layer (route_path criteria_number_route) p = NoMatch"
  using assms(2)
  by (simp_all add: match_layer_pieces [OF assms(1)] lower_def admin_users_route_def
        save_route_def school_route_def submit_route_def criteria_number_route_def
        split: option.split)

lemma route_request_admin_users:
  assumes "mset rs = mset (routes criteria_router)"
  shows "route_request rs GET ''/admin/users'' = Entered admin_users_route []"
proof (rule route_request_only_match)
  show "admin_users_route \<in> set rs"
    by (simp add: set_criteria_routes [OF assms])
  show "match_layer (route_path admin_users_route) ''/admin/users'' = Match []"
    by (rule admin_users_matches)
  show "route_method admin_users_route = GET"
    by (simp add: admin_users_route_def)
  show "\<forall>r \<in> set rs. r \<noteq> admin_users_route
          \<longrightarrow> match_layer (route_path r) ''/admin/users'' = NoMatch"
    using admin_users_matches by (auto simp add: set_criteria_routes [OF assms])
qed

lemma route_request_school:
  assumes "path_pieces p = Some [''school'', x]" and "x \<noteq> []"
      and "mset rs = mset (routes criteria_router)"
  shows "route_request rs GET p
           = (case decodeURIComponent x of
                None \<Rightarrow> RoutingError (decode_error x)
              | Some v \<Rightarrow> Entered school_route [(''school'', v)])"
proof -
  have mem: "school_route \<in> set rs"
    by (simp add: set_criteria_routes [OF assms(3)])
  have others: "\<forall>r \<in> set rs. r \<noteq> school_route
          \<longrightarrow> match_layer (route_path r) p = NoMatch"
    using school_matches(2-5) [OF assms(1,2)]
    by (auto simp add: set_criteria_routes [OF assms(3)])
  show ?thesis
  proof (cases "decodeURIComponent x")
    case None
    then have "match_layer (route_path school_route) p = MatchError (decode_error x)"
      by (simp add: school_matches(1) [OF assms(1,2)])
    from route_request_only_error [OF mem this others] None show ?thesis
      by simp
  next
    case (Some v)
    then have "match_layer (route_path school_route) p = Match [(''school'', v)]"
      by (simp add: school_matches(1) [OF assms(1,2)])
    moreover have "route_method school_route = GET"
      by (simp add: school_route_def)
    ultimately show ?thesis
      using route_request_only_match [OF mem _ _ others] Some by simp
  qed
qed

text \<open>Claim C9, as amended. In whatever order the five routes of the criteria router
  are registered: a \<^verbatim>\<open>GET\<close> request for \<^verbatim>\<open>/admin/users\<close> enters the route of
  \<^verbatim>\<open>getAllUsersWithData\<close>; a \<^verbatim>\<open>GET\<close> request for \<^verbatim>\<open>/school/x\<close>, \<open>x\<close> one non-empty
  path segment, enters the route of \<^verbatim>\<open>getSchoolData\<close> with the decoded \<open>x\<close> as
  \<^verbatim>\<open>req.params.school\<close> when \<open>x\<close> decodes, and enters no route when it does not: the
  error of the decoding goes to the error handlers. In no case is the route of
  \<^verbatim>\<open>getCriteriaData\<close> entered: its one-segment pattern \<^verbatim>\<open>/:criteriaNumber\<close> does not match
  a path of two segments.\<close>

theorem admin_and_school_paths_reach_their_handlers:
  assumes "x \<noteq> []" and "CHR ''/'' \<notin> set x"
      and "mset rs = mset (routes criteria_router)"
  shows "route_request rs GET ''/admin/users'' = Entered admin_users_route []
       \<and> route_request rs GET (''/school/'' @ x)
           = (case decodeURIComponent x of
                None \<Rightarrow> RoutingError (decode_error x)
              | Some v \<Rightarrow> Entered school_route [(''school'', v)])
       \<and> route_handler admin_users_route = GetAllUsersWithData
       \<and> route_handler school_route = GetSchoolData"
proof -
  have 1: "route_request rs GET ''/admin/users'' = Entered admin_users_route []"
    using assms(3) by (rule route_request_admin_users)
  have 2: "route_request rs GET (''/school/'' @ x)
           = (case decodeURIComponent x of
                None \<Rightarrow> RoutingError (decode_error x)
              | Some v \<Rightarrow> Entered school_route [(''school'', v)])"
    using path_pieces_school [OF assms(1,2)] assms(1,3) by (rule route_request_school)
  have 3: "route_handler admin_users_route = GetAllUsersWithData
       \<and> route_handler school_route = GetSchoolData"
    by (simp add: admin_users_route_def school_route_def)
  from 1 2 3 show ?thesis
    by (simp only: simp_thms)
qed

lemma decode_lincoln: "decodeURIComponent ''Lincoln%20High'' = Some ''Lincoln High''"
  by code_simp

theorem admin_and_school_paths_reach_their_handlers_witness:
  "''Lincoln%20High'' \<noteq> [] \<and> CHR ''/'' \<notin> set ''Lincoln%20High''
   \<and> mset (routes criteria_router) = mset (routes criteria_router)
   \<and> dispatch criteria_router GET ''/school/Lincoln%20High''
       = Entered school_route [(''school'', ''Lincoln High'')]
   \<and> dispatch criteria_router GET ''/admin/users'' = Entered admin_users_route []"
proof -
  have a: "''Lincoln%20High'' \<noteq> []" by simp
  have b: "CHR ''/'' \<notin> set ''Lincoln%20High''" by simp
  have c: "mset (routes criteria_router) = mset (routes criteria_router)" by simp
  show ?thesis
    using admin_and_school_paths_reach_their_handlers [OF a b c] a b
    by (simp add: dispatch_def decode_lincoln)
qed

text \<open>The match ignores the case of a literal segment and one slash at the end.\<close>

lemma admin_users_path_in_capitals:
  "dispatch criteria_router GET ''/Admin/USERS/'' = Entered admin_users_route []
   \<and> dispatch criteria_router GET ''/admin/users//'' = Unmatched
   \<and> dispatch criteria_router GET ''/admin'' = Entered criteria_number_route [(''criteriaNumber'', ''admin'')]"
  by (simp add: dispatch_def criteria_router_def match_layer_def path_pieces_def
        save_route_def admin_users_route_def school_route_def submit_route_def
        criteria_number_route_def lower_def decodeURIComponent_def)

text \<open>The claim as stated fails for the path \<^verbatim>\<open>/school/%\<close>: the pattern of the school
  route matches, its parameter does not decode, no route is entered and the error
  handlers answer with status 500. The reason the claim gives does not hold either: with
  the routes registered in the reverse order, the catch-all first, \<^verbatim>\<open>/admin/users\<close> still
  enters the route of \<^verbatim>\<open>getAllUsersWithData\<close>.\<close>

theorem malformed_school_escape_enters_no_route:
  "dispatch criteria_router GET ''/school/%'' = RoutingError (decode_error ''%'')
   \<and> (handle_error production_context (decode_error ''%'') :: unit handled)
       = Sent \<lparr>statusCode = 500,
               body = JObj [(''success'', JBool False),
                            (''message'', JStr ''Internal server error''),
                            (''timestamp'', JStr (now production_context))]\<rparr>
   \<and> dispatch (criteria_router\<lparr>routes := rev (routes criteria_router)\<rparr>) GET ''/admin/users''
       = Entered admin_users_route []"
proof -
  have 1: "dispatch criteria_router GET ''/school/%'' = RoutingError (decode_error ''%'')"
    by (simp add: dispatch_def criteria_router_def match_layer_def path_pieces_def
          save_route_def admin_users_route_def school_route_def lower_def
          decodeURIComponent_def)
  have 2: "(handle_error production_context (decode_error ''%'') :: unit handled)
       = Sent \<lparr>statusCode = 500,
               body = JObj [(''success'', JBool False),
                            (''message'', JStr ''Internal server error''),
                            (''timestamp'', JStr (now production_context))]\<rparr>"
    by (simp add: decode_error_def production_context_def handle_error_def
          multerErrorHandler_def cloudinaryErrorHandler_def databaseErrorHandler_def
          jwtErrorHandler_def genericErrorHandler_def)
  have 3: "dispatch (criteria_router\<lparr>routes := rev (routes criteria_router)\<rparr>) GET
         ''/admin/users'' = Entered admin_users_route []"
    by (simp add: dispatch_def route_request_admin_users)
  from 1 2 3 show ?thesis
    by (simp only: simp_thms)
qed

subsection \<open>The error handlers\<close>

lemma str_includes_nonempty: "str_includes m ''Invalid file type'' \<Longrightarrow> m \<noteq> []"
  by (cases m) simp_all

lemma multer_passes_iff:
  "(multerErrorHandler err :: 'd handled) = NextErr err
     \<longleftrightarrow> \<not> instanceof_MulterError err \<and> \<not> str_includes (err_message err) ''Invalid file type''"
  using str_includes_nonempty [of "err_message err"]
  by (auto simp add: multerErrorHandler_def)

lemma cloudinary_passes_iff:
  "(cloudinaryErrorHandler err :: 'd handled) = NextErr err \<longleftrightarrow> err_name err \<noteq> ''CloudinaryError''"
  by (simp add: cloudinaryErrorHandler_def)

lemma database_passes_iff:
  "(databaseErrorHandler err :: 'd handled) = NextErr err
     \<longleftrightarrow> err_name err \<notin> {''MongoError'', ''MongooseError'', ''MongoNetworkError'',
                           ''ValidationError'', ''CastError''}
         \<and> err_code err \<noteq> Num 11000"
  by (auto simp add: databaseErrorHandler_def type_error_def split: option.splits)

lemma jwt_passes_iff:
  "(jwtErrorHandler err :: 'd handled) = NextErr err
     \<longleftrightarrow> err_name err \<noteq> ''JsonWebTokenError'' \<and> err_name err \<noteq> ''TokenExpiredError''"
  by (simp add: jwtErrorHandler_def)

lemma unclassified_iff:
  "unclassified err \<longleftrightarrow>
     \<not> instanceof_MulterError err
     \<and> \<not> str_includes (err_message err) ''Invalid file type''
     \<and> err_name err \<notin> {''CloudinaryError'', ''MongoError'', ''MongooseError'', ''MongoNetworkError'',
                         ''ValidationError'', ''CastError'', ''JsonWebTokenError'', ''TokenExpiredError''}
     \<and> err_code err \<noteq> Num 11000"
  unfolding unclassified_def multer_passes_iff cloudinary_passes_iff database_passes_iff jwt_passes_iff
  by auto

lemma unclassified_reaches_generic:
  assumes "unclassified err"
  shows "(handle_error ctx err :: 'd handled) = genericErrorHandler ctx err"
proof -
  from assms have u: "\<not> instanceof_MulterError err" "\<not> str_includes (err_message err) ''Invalid file type''"
     "err_name err \<notin> {''CloudinaryError'', ''MongoError'', ''MongooseError'', ''MongoNetworkError'',
                         ''ValidationError'', ''CastError'', ''JsonWebTokenError'', ''TokenExpiredError''}"
     "err_code err \<noteq> Num 11000"
    by (simp_all add: unclassified_iff)
  have 1: "(multerErrorHandler err :: 'd handled) = NextErr err"
    using u by (simp add: multer_passes_iff)
  have 2: "(cloudinaryErrorHandler err :: 'd handled) = NextErr err"
    using u by (simp add: cloudinary_passes_iff)
  have 3: "(databaseErrorHandler err :: 'd handled) = NextErr err"
    using u by (simp add: database_passes_iff)
  have 4: "(jwtErrorHandler err :: 'd handled) = NextErr err"
    using u by (simp add: jwt_passes_iff)
  show ?thesis
    by (simp add: handle_error_def 1 2 3 4 split: handled.split)
qed

text \<open>Claim C7. An error named \<^verbatim>\<open>JsonWebTokenError\<close> or \<^verbatim>\<open>TokenExpiredError\<close> that
  reaches the error handlers is answered with status 401 and \<^verbatim>\<open>success: false\<close>. The
  three further hypotheses say that the error is one the token library raises: it is no
  Multer error, it carries no \<^verbatim>\<open>code\<close> 11000, and its message does not hold the words
  \<^verbatim>\<open>Invalid file type\<close> (the library's messages are fixed: \<^verbatim>\<open>invalid signature\<close>,
  \<^verbatim>\<open>jwt expired\<close>, \<^verbatim>\<open>jwt malformed\<close> and the like).\<close>

theorem token_errors_are_unauthenticated:
  assumes "err_name err = ''JsonWebTokenError'' \<or> err_name err = ''TokenExpiredError''"
      and "\<not> instanceof_MulterError err"
      and "\<not> str_includes (err_message err) ''Invalid file type''"
      and "err_code err \<noteq> Num 11000"
  shows "(handle_error ctx err :: 'd handled)
           = Sent (failure 401 (if err_name err = ''JsonWebTokenError''
                                then ''Invalid authentication token''
                                else ''Authentication token has expired''))
       \<and> statusCode (failure 401 m :: 'd response) = 401
       \<and> field ''success'' (body (failure 401 m :: 'd response)) = Some (JBool False)"
proof -
  have 1: "(multerErrorHandler err :: 'd handled) = NextErr err"
    using assms by (simp add: multer_passes_iff)
  have 2: "(cloudinaryErrorHandler err :: 'd handled) = NextErr err"
    using assms(1) by (auto simp add: cloudinary_passes_iff)
  have 3: "(databaseErrorHandler err :: 'd handled) = NextErr err"
    using assms(1,4) by (auto simp add: database_passes_iff)
  have 4: "(jwtErrorHandler err :: 'd handled)
      = Sent (failure 401 (if err_name err = ''JsonWebTokenError''
                                then ''Invalid authentication token''
                                else ''Authentication token has expired''))"
    using assms(1) by (auto simp add: jwtErrorHandler_def)
  show ?thesis
    by (simp add: handle_error_def 1 2 3 4 failure_def field_def)
qed

theorem token_errors_are_unauthenticated_witness:
  "(err_name invalid_signature_error = ''JsonWebTokenError''
      \<or> err_name invalid_signature_error = ''TokenExpiredError'')
   \<and> \<not> instanceof_MulterError invalid_signature_error
   \<and> \<not> str_includes (err_message invalid_signature_error) ''Invalid file type''
   \<and> err_code invalid_signature_error \<noteq> Num 11000
   \<and> (handle_error production_context invalid_signature_error :: unit handled)
       = Sent (failure 401 ''Invalid authentication token'')
   \<and> (handle_error production_context token_expired_error :: unit handled)
       = Sent (failure 401 ''Authentication token has expired'')"
proof -
  have a: "err_name invalid_signature_error = ''JsonWebTokenError''
      \<or> err_name invalid_signature_error = ''TokenExpiredError''"
    by (simp add: invalid_signature_error_def)
  have b: "\<not> instanceof_MulterError invalid_signature_error"
    by (simp add: invalid_signature_error_def)
  have c: "\<not> str_includes (err_message invalid_signature_error) ''Invalid file type''"
    by (simp add: invalid_signature_error_def)
  have d: "err_code invalid_signature_error \<noteq> Num 11000"
    by (simp add: invalid_signature_error_def)
  have a': "err_name token_expired_error = ''JsonWebTokenError''
      \<or> err_name token_expired_error = ''TokenExpiredError''"
    by (simp add: token_expired_error_def)
  have b': "\<not> instanceof_MulterError token_expired_error"
    by (simp add: token_expired_error_def)
  have c': "\<not> str_includes (err_message token_expired_error) ''Invalid file type''"
    by (simp add: token_expired_error_def)
  have d': "err_code token_expired_error \<noteq> Num 11000"
    by (simp add: token_expired_error_def)
  have n: "err_name invalid_signature_error = ''JsonWebTokenError''"
    by (simp add: invalid_signature_error_def)
  have n': "err_name token_expired_error \<noteq> ''JsonWebTokenError''"
    by (simp add: token_expired_error_def)
  show ?thesis
    using token_errors_are_unauthenticated
            [where ?'d = unit, OF a b c d, where ctx = production_context and m = "[]"]
          token_errors_are_unauthenticated
            [where ?'d = unit, OF a' b' c' d', where ctx = production_context and m = "[]"]
          a b c d n n'
    by simp
qed

text \<open>Claim C8, as amended. Take two errors that no earlier handler answers, in two
  runs that have not started a response. Both runs answer with status 500 and
  \<^verbatim>\<open>success: false\<close>. When neither run is in development mode (\<^verbatim>\<open>NODE_ENV\<close> unset or
  different from \<^verbatim>\<open>development\<close>), the bodies carry no \<^verbatim>\<open>error\<close> key and, apart from
  the timestamp, the two bodies are the same: nothing of the error's name, message or
  stack reaches the caller. The two responses are then equal exactly when the clock
  readings are.\<close>

theorem unclassified_errors_look_alike_in_production:
  assumes "unclassified err1" and "unclassified err2"
      and "\<not> headersSent ctx1" and "\<not> headersSent ctx2"
  shows "\<exists>r1 r2.
           (handle_error ctx1 err1 :: 'd handled) = Sent r1
         \<and> (handle_error ctx2 err2 :: 'd handled) = Sent r2
         \<and> statusCode r1 = 500 \<and> statusCode r2 = 500
         \<and> field ''success'' (body r1) = Some (JBool False)
         \<and> field ''success'' (body r2) = Some (JBool False)
         \<and> field ''timestamp'' (body r1) = Some (JStr (now ctx1))
         \<and> (NODE_ENV ctx1 \<noteq> Some ''development'' \<and> NODE_ENV ctx2 \<noteq> Some ''development''
              \<longrightarrow> without ''timestamp'' (body r1) = without ''timestamp'' (body r2)
                \<and> field ''error'' (body r1) = None
                \<and> (now ctx1 = now ctx2) = (r1 = r2))"
proof -
  have 1: "(handle_error ctx1 err1 :: 'd handled) = genericErrorHandler ctx1 err1"
    using assms(1) by (rule unclassified_reaches_generic)
  have 2: "(handle_error ctx2 err2 :: 'd handled) = genericErrorHandler ctx2 err2"
    using assms(2) by (rule unclassified_reaches_generic)
  show ?thesis
    unfolding 1 2 using assms(3,4)
    by (simp add: genericErrorHandler_def field_def without_def)
qed

theorem unclassified_errors_look_alike_in_production_witness:
  "unclassified null_deref_error \<and> unclassified range_error
   \<and> \<not> headersSent production_context \<and> \<not> headersSent unset_env_context
   \<and> NODE_ENV production_context \<noteq> Some ''development''
   \<and> NODE_ENV unset_env_context \<noteq> Some ''development''
   \<and> null_deref_error \<noteq> range_error
   \<and> (\<exists>r1 r2. (handle_error production_context null_deref_error :: unit handled) = Sent r1
         \<and> (handle_error unset_env_context range_error :: unit handled) = Sent r2
         \<and> statusCode r1 = 500 \<and> statusCode r2 = 500
         \<and> without ''timestamp'' (body r1) = without ''timestamp'' (body r2))"
proof -
  have a: "unclassified null_deref_error"
    by (simp add: unclassified_iff null_deref_error_def)
  have b: "unclassified range_error"
    by (simp add: unclassified_iff range_error_def)
  have c: "\<not> headersSent production_context" "NODE_ENV production_context \<noteq> Some ''development''"
    by (simp_all add: production_context_def)
  have d: "\<not> headersSent unset_env_context" "NODE_ENV unset_env_context \<noteq> Some ''development''"
    by (simp_all add: unset_env_context_def)
  have e: "null_deref_error \<noteq> range_error"
    by (simp add: null_deref_error_def range_error_def)
  from unclassified_errors_look_alike_in_production [where ?'d = unit, OF a b c(1) d(1)] c(2) d(2)
  obtain r1 r2 where
    "(handle_error production_context null_deref_error :: unit handled) = Sent r1"
    "(handle_error unset_env_context range_error :: unit handled) = Sent r2"
    "statusCode r1 = 500" "statusCode r2 = 500"
    "without ''timestamp'' (body r1) = without ''timestamp'' (body r2)"
    by blast
  then have "\<exists>r1 r2. (handle_error production_context null_deref_error :: unit handled) = Sent r1
         \<and> (handle_error unset_env_context range_error :: unit handled) = Sent r2
         \<and> statusCode r1 = 500 \<and> statusCode r2 = 500
         \<and> without ''timestamp'' (body r1) = without ''timestamp'' (body r2)"
    by blast
  with a b c d e show ?thesis by blast
qed

text \<open>The claim as stated fails once a response has been started: the generic
  handler then passes the error on and sends no response of its own.\<close>

theorem generic_handler_passes_on_when_headers_sent:
  "unclassified null_deref_error
   \<and> headersSent response_started_context
   \<and> NODE_ENV response_started_context = Some ''production''
   \<and> (handle_error response_started_context null_deref_error :: unit handled)
       = NextErr null_deref_error"
  by (simp add: unclassified_iff null_deref_error_def response_started_context_def production_context_def
       handle_error_def multerErrorHandler_def cloudinaryErrorHandler_def databaseErrorHandler_def
       jwtErrorHandler_def genericErrorHandler_def)

text \<open>The duplicate-key branch of the database handler: an error with \<^verbatim>\<open>code\<close> 11000
  and a non-empty \<^verbatim>\<open>keyValue\<close> that no earlier test answers is answered with status 400
  and the name of the first duplicated field.\<close>

lemma duplicate_key_branch:
  assumes "err_code err = Num 11000" and "err_keyValue err = Some ((k, v) # kvs)"
      and "\<not> instanceof_MulterError err"
      and "\<not> str_includes (err_message err) ''Invalid file type''"
      and "err_name err \<notin> {''CloudinaryError'', ''MongoError'', ''MongooseError'',
                            ''MongoNetworkError'', ''ValidationError'', ''CastError''}"
  shows "(handle_error ctx err :: 'd handled) = Sent (failure 400 (''Duplicate '' @ k @ '' value entered''))"
proof -
  have 1: "(multerErrorHandler err :: 'd handled) = NextErr err"
    using assms by (simp add: multer_passes_iff)
  have 2: "(cloudinaryErrorHandler err :: 'd handled) = NextErr err"
    using assms by (simp add: cloudinary_passes_iff)
  have 3: "(databaseErrorHandler err :: 'd handled) = Sent (failure 400 (''Duplicate '' @ k @ '' value entered''))"
    using assms by (simp add: databaseErrorHandler_def)
  show ?thesis by (simp add: handle_error_def 1 2 3)
qed

text \<open>Claim C6 does not hold of the code. Three duplicate-key errors (\<^verbatim>\<open>code\<close> 11000)
  that are not answered as \<^verbatim>\<open>DuplicateKey\<close>: under the name \<^verbatim>\<open>MongoError\<close> the first
  test of the database handler answers 500; when the duplicated value holds the words
  \<^verbatim>\<open>Invalid file type\<close> the Multer handler answers with the storage error's own
  message; without \<^verbatim>\<open>keyValue\<close> the branch throws and the generic handler answers 500.\<close>

theorem duplicate_key_errors_misclassified:
  "err_code duplicate_named_MongoError = Num 11000
   \<and> (handle_error ctx duplicate_named_MongoError :: 'd handled)
       = Sent (failure 500 ''Database connection error. Please try again.'')
   \<and> err_code duplicate_with_file_type_words = Num 11000
   \<and> (handle_error ctx duplicate_with_file_type_words :: 'd handled)
       = Sent (failure 400 (err_message duplicate_with_file_type_words))
   \<and> err_code duplicate_without_keyValue = Num 11000
   \<and> (handle_error (ctx\<lparr>headersSent := False, NODE_ENV := Some ''production''\<rparr>) duplicate_without_keyValue :: 'd handled)
       = Sent \<lparr>statusCode = 500,
               body = JObj [(''success'', JBool False),
                          (''message'', JStr ''Internal server error''),
                          (''timestamp'', JStr (now ctx))]\<rparr>"
  by (simp add: duplicate_named_MongoError_def duplicate_with_file_type_words_def
       duplicate_without_keyValue_def duplicate_email_error_def
       handle_error_def multerErrorHandler_def cloudinaryErrorHandler_def databaseErrorHandler_def
       jwtErrorHandler_def genericErrorHandler_def type_error_def)

subsection \<open>The pipeline of the admin file view\<close>

lemma join_stages:
  "project_stage (unwind_stage (lookup_stage us cs))
     = concat (map (\<lambda>r. case us (userId r) of None \<Rightarrow> [] | Some u \<Rightarrow> [project_row r u]) cs)"
  by (induction cs) (simp_all add: project_stage_def unwind_stage_def lookup_stage_def split: option.split)

lemma mset_join:
  "mset (concat (map (\<lambda>r. case us (userId r) of None \<Rightarrow> [] | Some u \<Rightarrow> [project_row r u]) cs))
     = image_mset (\<lambda>r. project_row r (the (us (userId r))))
         (filter_mset (\<lambda>r. us (userId r) \<noteq> None) (mset cs))"
  by (induction cs) (auto split: option.split)

lemma mset_before_sort:
  "mset (before_sort d)
     = image_mset (\<lambda>r. project_row r (the (users d (userId r))))
         (filter_mset (\<lambda>r. files r \<noteq> [] \<and> users d (userId r) \<noteq> None) (mset (criteria d)))"
  by (simp add: before_sort_def join_stages mset_join match_stage_def filter_filter_mset conj_commute)

lemma sort_le_key: "sort_le a b \<longleftrightarrow> row_key a \<le> row_key b"
  by (auto simp add: sort_le_def row_key_def)

lemma sorted_wrt_sort_le: "sorted_wrt sort_le ys \<longleftrightarrow> sorted (map row_key ys)"
  by (simp add: sorted_map sort_le_key [abs_def])

lemma aggregate_files_returns: "aggregate_files d (stable_sort (before_sort d))"
  by (simp add: aggregate_files_def sort_stage_def stable_sort_def sorted_wrt_sort_le)

lemma files_project_row: "files (project_row r u) = files r"
  by (simp add: project_row_def)

lemma rows_have_files:
  assumes "aggregate_files d out" and "row \<in> set out"
  shows "files row \<noteq> []"
proof -
  from assms have "row \<in># mset (before_sort d)"
    by (metis aggregate_files_def sort_stage_def set_mset_mset)
  then show ?thesis
    by (auto simp add: mset_before_sort files_project_row)
qed


text \<open>Claim C3, as amended. Whatever sequence the pipeline returns, it holds exactly
  the criteria documents whose \<open>files\<close> list is non-empty and whose owner is in the users
  collection, each once and joined to the owner's id, name and email; no returned row
  has an empty \<open>files\<close> list. For an admin the endpoint answers with status 200, that
  sequence as \<^verbatim>\<open>data\<close> and its length as \<^verbatim>\<open>count\<close>, after one read of the store. The
  pipeline always has a result: the stable sort of the joined documents is one.\<close>

theorem files_view_lists_records_with_files_and_owner:
  assumes "aggregate_files d out" and "req_user req = Some u" and "role u = ''admin''"
  shows "mset out
           = image_mset (\<lambda>r. project_row r (the (users d (userId r))))
               (filter_mset (\<lambda>r. files r \<noteq> [] \<and> users d (userId r) \<noteq> None)
                  (mset (criteria d)))
       \<and> (\<forall>row \<in> set out. files row \<noteq> [])
       \<and> admin_files req (Inr out)
           = (\<lparr>statusCode = 200,
               body = JObj [(''success'', JBool True), (''data'', JArr (map JDoc out)),
                            (''count'', JNum (int (length out)))]\<rparr>,
              [AggregateCriteria])
       \<and> aggregate_files d (stable_sort (before_sort d))"
proof -
  have "mset out = mset (before_sort d)"
    using assms(1) by (simp add: aggregate_files_def sort_stage_def)
  then have 1: "mset out
           = image_mset (\<lambda>r. project_row r (the (users d (userId r))))
               (filter_mset (\<lambda>r. files r \<noteq> [] \<and> users d (userId r) \<noteq> None)
                  (mset (criteria d)))"
    by (simp only: mset_before_sort)
  have 2: "\<forall>row \<in> set out. files row \<noteq> []"
    using rows_have_files [OF assms(1)] by blast
  have "adminAuth req = (Next :: 'a file_row response step)"
    using assms(2,3) by (simp add: adminAuth_def)
  then have 3: "admin_files req (Inr out)
           = (\<lparr>statusCode = 200,
               body = JObj [(''success'', JBool True), (''data'', JArr (map JDoc out)),
                            (''count'', JNum (int (length out)))]\<rparr>,
              [AggregateCriteria])"
    by (simp add: admin_files_def files_handler_def)
  from 1 2 3 aggregate_files_returns show ?thesis
    by blast
qed

theorem files_view_lists_records_with_files_and_owner_witness:
  "aggregate_files sample_db sample_rows
   \<and> req_user \<lparr>req_user = Some global_admin\<rparr> = Some global_admin
   \<and> role global_admin = ''admin''
   \<and> mset sample_rows
       = image_mset (\<lambda>r. project_row r (the (users sample_db (userId r))))
           (filter_mset (\<lambda>r. files r \<noteq> [] \<and> users sample_db (userId r) \<noteq> None)
              (mset (criteria sample_db)))
   \<and> map doc_id sample_rows = [11, 13, 10]
   \<and> snd (admin_files \<lparr>req_user = Some global_admin\<rparr> (Inr sample_rows)) = [AggregateCriteria]"
proof -
  have a: "aggregate_files sample_db sample_rows"
    by (simp add: aggregate_files_def sort_stage_def sort_le_def before_sort_def match_stage_def
        lookup_stage_def unwind_stage_def project_stage_def
        sample_db_def sample_rows_def criteria_doc_def project_row_def asha_def bo_def)
  have b: "req_user \<lparr>req_user = Some global_admin\<rparr> = Some global_admin"
    by simp
  have c: "role global_admin = ''admin''"
    by (simp add: global_admin_def)
  have d: "map doc_id sample_rows = [11, 13, 10]"
    by (simp add: sample_rows_def criteria_doc_def project_row_def)
  show ?thesis
    using files_view_lists_records_with_files_and_owner [OF a b c] a b c d
    by simp
qed

text \<open>The claim as stated fails on a store that holds a document with attachments
  whose owner has no user document: \<^verbatim>\<open>$unwind\<close> drops it, and the view is empty.\<close>

theorem record_with_files_of_missing_owner_is_dropped:
  "files (criteria_doc 30 9 1 ''1.1'' [evidence_file]) \<noteq> []
   \<and> criteria orphan_db = [criteria_doc 30 9 1 ''1.1'' [evidence_file]]
   \<and> before_sort orphan_db = []
   \<and> aggregate_files orphan_db []
   \<and> (\<forall>out. aggregate_files orphan_db out = (out = []))"
  by (auto simp add: aggregate_files_def sort_stage_def sort_le_def before_sort_def match_stage_def
        lookup_stage_def unwind_stage_def project_stage_def
        orphan_db_def criteria_doc_def evidence_file_def)




text \<open>Where two documents agree in both sort fields, both orders are sorted in the
  sense of the pipeline: which of them is returned, every time, is the database's
  choice and not the pipeline's.\<close>

lemma both_orders_of_a_tie_are_key_sorted:
  "aggregate_files tie_db [tie_row_a, tie_row_b]
   \<and> aggregate_files tie_db [tie_row_b, tie_row_a]
   \<and> [tie_row_a, tie_row_b] \<noteq> [tie_row_b, tie_row_a]"
  by (simp add: aggregate_files_def sort_stage_def sort_le_def before_sort_def match_stage_def
        lookup_stage_def unwind_stage_def project_stage_def
        tie_db_def tie_row_a_def tie_row_b_def criteria_doc_def project_row_def asha_def)

end
